theory Spec2Isabelle
  imports Main
begin

section \<open>The packaging manifest \<open>setup.py\<close>\<close>

text \<open>
  The repository consists of one file, \<open>setup.py\<close>:
  \<^verbatim>\<open>
  from distutils.core import setup

  setup(
      name='chisq_test_wrapper',
      version='',
      packages=['statsmodels', 'scipy'],
      url='https://github.com/neuhofmo/chisq_test_wrapper',
      license='',
      author='',
      author_email='',
      description='A friendly, automated chi-square test function which takes care of post-hoc tests and multiple comparisons',
      requires=['statsmodels', 'scipy']
  )
  \<close>
  It is one call of the packaging tool's entry point \<open>setup\<close> with nine keyword arguments,
  each of them a literal.
\<close>

subsection \<open>Values and keyword arguments\<close>

text \<open>
  The two forms of literal that occur as an argument: a string and a list of strings.
\<close>

datatype pyval = Str string | StrList "string list"

text \<open>
  Python hands the keyword arguments of a call to the callee as a dictionary that keeps
  the order in which they are written: an association list.
\<close>

type_synonym kwargs = "(string \<times> pyval) list"

text \<open>The keyword arguments of the call, lines 4 to 12 of the file, in the order written.\<close>

definition setup_kwargs :: kwargs where
  "setup_kwargs =
    [(''name'', Str ''chisq_test_wrapper''),
     (''version'', Str ''''),
     (''packages'', StrList [''statsmodels'', ''scipy'']),
     (''url'', Str ''https://github.com/neuhofmo/chisq_test_wrapper''),
     (''license'', Str ''''),
     (''author'', Str ''''),
     (''author_email'', Str ''''),
     (''description'', Str ''A friendly, automated chi-square test function which takes care of post-hoc tests and multiple comparisons''),
     (''requires'', StrList [''statsmodels'', ''scipy''])]"

subsection \<open>Running the script\<close>

text \<open>
  What a run of the script can see and what it leaves behind: the command line and the
  process environment it is started with, and the distribution that the latest call of
  \<open>setup\<close> has declared (\<open>None\<close> before any call).
\<close>

record interp =
  argv :: "string list"
  environ :: "(string \<times> string) list"
  distribution :: "kwargs option"

text \<open>
  \<open>setup\<close> is imported from the packaging tool (\<open>distutils.core\<close>), it is not code of this
  repository. Of its behaviour the model keeps the declaration itself: the attributes it
  is called with become the declared distribution. Building and installing, which the
  tool does afterwards from the command line, is not modelled. The constant is named
  \<open>setup_call\<close>, the plain name being a command of the theory language.
\<close>

definition setup_call :: "kwargs \<Rightarrow> interp \<Rightarrow> interp" where
  "setup_call attrs st = st\<lparr>distribution := Some attrs\<rparr>"

text \<open>The script: the import binds the name \<open>setup\<close>, then the call is made.\<close>

definition setup_py :: "interp \<Rightarrow> interp" where
  "setup_py st = setup_call setup_kwargs st"

text \<open>Reading one field of the declared metadata, as a dictionary lookup.\<close>

definition attr :: "string \<Rightarrow> interp \<Rightarrow> pyval option" where
  "attr k st = (case distribution st of None \<Rightarrow> None | Some attrs \<Rightarrow> map_of attrs k)"

subsection \<open>Shape of a field\<close>

text \<open>A field that is declared, is a string, and is empty (respectively not empty).\<close>

fun empty_str :: "pyval option \<Rightarrow> bool" where
  "empty_str (Some (Str s)) = (s = [])"
| "empty_str _ = False"

fun nonempty_str :: "pyval option \<Rightarrow> bool" where
  "nonempty_str (Some (Str s)) = (s \<noteq> [])"
| "nonempty_str _ = False"

text \<open>
  The purpose of the library as the specification quotes it. The specification's
  sentence begins with a small letter; the \<open>description\<close> argument of the call does not.
\<close>

definition stated_purpose :: string where
  "stated_purpose = ''a friendly, automated chi-square test function which takes care of post-hoc tests and multiple comparisons''"

subsection \<open>Version specifiers\<close>

text \<open>\<open>startswith s p\<close>: the string \<open>s\<close> begins with \<open>p\<close>; \<open>contains s p\<close>: \<open>p\<close> occurs in \<open>s\<close>.\<close>

fun startswith :: "string \<Rightarrow> string \<Rightarrow> bool" where
  "startswith s [] = True"
| "startswith [] (p # ps) = False"
| "startswith (c # cs) (p # ps) = (c = p \<and> startswith cs ps)"

fun contains :: "string \<Rightarrow> string \<Rightarrow> bool" where
  "contains [] p = startswith [] p"
| "contains (c # cs) p = (startswith (c # cs) p \<or> contains cs p)"

text \<open>
  A requirement carries a version constraint when a comparison operator or an opening
  parenthesis occurs in it: the packaging tool writes a constrained requirement as
  \<open>name (>=1.0)\<close>, later tools as \<open>name>=1.0\<close> or \<open>name==1.0\<close>.
\<close>

definition version_operators :: "string list" where
  "version_operators = [''=='', ''>='', ''<='', ''!='', ''~='', ''<'', ''>'', ''('']"

definition has_version_spec :: "string \<Rightarrow> bool" where
  "has_version_spec r = list_ex (contains r) version_operators"

subsection \<open>The text of the file\<close>

abbreviation newline :: char where
  "newline \<equiv> CHR 0x0A"

abbreviation quote :: char where
  "quote \<equiv> CHR 0x27"

text \<open>
  The characters of \<open>setup.py\<close>. Each line but the last ends with a newline character;
  the closing parenthesis is the last character of the file.
\<close>

definition setup_py_text :: string where
  "setup_py_text =
     ''from distutils.core import setup'' @ [newline] @
     [newline] @
     ''setup('' @ [newline] @
     ''    name='chisq_test_wrapper','' @ [newline] @
     ''    version='' @ [quote, quote] @ '','' @ [newline] @
     ''    packages=['statsmodels', 'scipy'],'' @ [newline] @
     ''    url='https://github.com/neuhofmo/chisq_test_wrapper','' @ [newline] @
     ''    license='' @ [quote, quote] @ '','' @ [newline] @
     ''    author='' @ [quote, quote] @ '','' @ [newline] @
     ''    author_email='' @ [quote, quote] @ '','' @ [newline] @
     ''    description='A friendly, automated chi-square test function which takes care of post-hoc tests and multiple comparisons','' @ [newline] @
     ''    requires=['statsmodels', 'scipy']'' @ [newline] @
     '')''"

text \<open>
  The lines of a text, as Python's \<open>str.splitlines\<close> and an editor count them: a line ends
  at a newline character or at the end of the text, and a newline that ends the text
  starts no further line. \<open>cur\<close> holds the characters of the current line, latest first.
\<close>

fun splitlines_from :: "string \<Rightarrow> string \<Rightarrow> string list" where
  "splitlines_from cur [] = (if cur = [] then [] else [rev cur])"
| "splitlines_from cur (c # cs) =
     (if c = newline then rev cur # splitlines_from [] cs
      else splitlines_from (c # cur) cs)"

definition splitlines :: "string \<Rightarrow> string list" where
  "splitlines s = splitlines_from [] s"

text \<open>
  How a call with literal keyword arguments is laid out in the file: a literal in
  Python's notation with single quotes, an argument as \<open>key=literal\<close> on a line of its
  own indented by four spaces, a comma after each argument but the last.
\<close>

fun join_with :: "string \<Rightarrow> string list \<Rightarrow> string" where
  "join_with sep [] = []"
| "join_with sep [x] = x"
| "join_with sep (x # y # ys) = x @ sep @ join_with sep (y # ys)"

definition render_str :: "string \<Rightarrow> string" where
  "render_str s = [quote] @ s @ [quote]"

fun render_pyval :: "pyval \<Rightarrow> string" where
  "render_pyval (Str s) = render_str s"
| "render_pyval (StrList xs) = ''['' @ join_with '', '' (map render_str xs) @ '']''"

fun render_kwargs :: "kwargs \<Rightarrow> string list" where
  "render_kwargs [] = []"
| "render_kwargs [(k, v)] = [''    '' @ k @ ''='' @ render_pyval v]"
| "render_kwargs ((k, v) # kv # kvs) =
     (''    '' @ k @ ''='' @ render_pyval v @ '','') # render_kwargs (kv # kvs)"

text \<open>
  A script that imports one name from one module and calls it once with literal keyword
  arguments: the import, an empty line, the opening of the call, the arguments, the
  closing parenthesis.
\<close>

definition render_script :: "string \<Rightarrow> string \<Rightarrow> kwargs \<Rightarrow> string list" where
  "render_script modname fname attrs =
     [''from '' @ modname @ '' import '' @ fname, [], fname @ ''(''] @
     render_kwargs attrs @ ['')'']"

section \<open>Properties of the manifest\<close>

lemma attr_setup_py: "attr k (setup_py st) = map_of setup_kwargs k"
  by (simp add: attr_def setup_py_def setup_call_def)

lemma setup_py_lines:
  "splitlines setup_py_text = render_script ''distutils.core'' ''setup'' setup_kwargs"
  by (simp add: splitlines_def setup_py_text_def render_script_def setup_kwargs_def
      render_str_def)

lemma setup_py_line_count: "length (splitlines setup_py_text) = 13"
  by (simp add: splitlines_def setup_py_text_def)



text \<open>
  C1: the manifest declares exactly two dependencies, named \<open>statsmodels\<close> and \<open>scipy\<close>:
  whatever state the script is run in, the \<open>requires\<close> field it declares is a list of
  length two whose elements are exactly these two names.
\<close>

theorem requires_two_dependencies:
  "\<exists>rs. attr ''requires'' (setup_py st) = Some (StrList rs)
      \<and> length rs = 2
      \<and> set rs = {''statsmodels'', ''scipy''}
      \<and> rs = [''statsmodels'', ''scipy'']"
  by (simp add: attr_setup_py setup_kwargs_def)

text \<open>
  C2, as amended: the \<open>description\<close> field is a non-empty string and is equal, character
  for character, to \<open>A friendly, automated chi-square test function which takes care of
  post-hoc tests and multiple comparisons\<close>. It differs from the stated purpose string in
  its first character only, a capital \<open>A\<close> where the purpose string has \<open>a\<close>.
\<close>

theorem description_capitalised_purpose:
  "nonempty_str (attr ''description'' (setup_py st))
   \<and> attr ''description'' (setup_py st) =
       Some (Str ''A friendly, automated chi-square test function which takes care of post-hoc tests and multiple comparisons'')
   \<and> attr ''description'' (setup_py st) = Some (Str (CHR ''A'' # tl stated_purpose))
   \<and> hd stated_purpose = CHR ''a''"
  by (simp add: attr_setup_py setup_kwargs_def stated_purpose_def)

text \<open>
  C2, as stated, fails: run from an empty state, the script declares a description that is
  not the stated purpose string.
\<close>

theorem description_not_stated_purpose:
  "attr ''description'' (setup_py \<lparr>argv = [], environ = [], distribution = None\<rparr>)
     \<noteq> Some (Str stated_purpose)"
  by (simp add: attr_setup_py setup_kwargs_def stated_purpose_def)

text \<open>
  C3: evaluating the manifest is idempotent: running the script a second time, in the
  state the first run has left, gives the state (and so the declared metadata) of the
  first run.
\<close>

theorem setup_py_idempotent:
  "setup_py (setup_py st) = setup_py st
   \<and> distribution (setup_py (setup_py st)) = distribution (setup_py st)"
  by (simp add: setup_py_def setup_call_def)

text \<open>
  C4: the \<open>version\<close>, \<open>license\<close>, \<open>author\<close> and \<open>author_email\<close> fields are the empty string;
  the \<open>name\<close>, \<open>url\<close> and \<open>description\<close> fields are strings that are not empty.
\<close>

theorem empty_and_nonempty_fields:
  "empty_str (attr ''version'' (setup_py st))
   \<and> empty_str (attr ''license'' (setup_py st))
   \<and> empty_str (attr ''author'' (setup_py st))
   \<and> empty_str (attr ''author_email'' (setup_py st))
   \<and> nonempty_str (attr ''name'' (setup_py st))
   \<and> nonempty_str (attr ''url'' (setup_py st))
   \<and> nonempty_str (attr ''description'' (setup_py st))"
  by (simp add: attr_setup_py setup_kwargs_def)

text \<open>
  C5: the \<open>requires\<close> list duplicates the \<open>packages\<close> list: the two fields are equal, both
  the list of \<open>statsmodels\<close> and \<open>scipy\<close> in this order.
\<close>

theorem requires_duplicates_packages:
  "attr ''requires'' (setup_py st) = attr ''packages'' (setup_py st)
   \<and> attr ''packages'' (setup_py st) = Some (StrList [''statsmodels'', ''scipy''])
   \<and> attr ''requires'' (setup_py st) = Some (StrList [''statsmodels'', ''scipy''])"
  by (simp add: attr_setup_py setup_kwargs_def)

text \<open>
  C6: the file has exactly 13 lines, and they are metadata only: line by line, the file
  is the import of \<open>setup\<close>, an empty line, and one call of \<open>setup\<close> whose nine arguments
  are the literals of \<open>setup_kwargs\<close>. No line is left that could compute a statistic, a
  post-hoc test or a correction for multiple comparisons.
\<close>

theorem thirteen_lines_of_metadata:
  "length (splitlines setup_py_text) = 13
   \<and> splitlines setup_py_text = render_script ''distutils.core'' ''setup'' setup_kwargs
   \<and> length setup_kwargs = 9"
  using setup_py_lines setup_py_line_count by (simp add: setup_kwargs_def)


text \<open>
  C8: the \<open>packages\<close> field lists the two external dependencies only. The project's own
  name \<open>chisq_test_wrapper\<close> is not in it, and no module is declared either, so the
  manifest declares no package of its own.
\<close>

theorem packages_omit_own_name:
  "\<exists>n ps. attr ''name'' (setup_py st) = Some (Str n)
      \<and> attr ''packages'' (setup_py st) = Some (StrList ps)
      \<and> n = ''chisq_test_wrapper''
      \<and> ps = [''statsmodels'', ''scipy'']
      \<and> n \<notin> set ps
      \<and> attr ''py_modules'' (setup_py st) = None"
  by (simp add: attr_setup_py setup_kwargs_def)


text \<open>
  C10: the dependencies are unpinned: no entry of the \<open>requires\<close> list contains a version
  specifier (a comparison operator such as \<open>==\<close> or \<open>>=\<close>, or a parenthesis).
\<close>

theorem requires_unpinned:
  "\<exists>rs. attr ''requires'' (setup_py st) = Some (StrList rs)
      \<and> list_all (\<lambda>r. \<not> has_version_spec r) rs"
  by (simp add: attr_setup_py setup_kwargs_def has_version_spec_def version_operators_def)

end
